theory Spec2Isabelle
  imports Main
begin

section \<open>Errors of package trace\<close>

text \<open>
  The source builds errors with \<^verbatim>\<open>trace.AccessDenied\<close>, \<^verbatim>\<open>trace.NotFound\<close>,
  \<^verbatim>\<open>trace.BadParameter\<close> and wraps errors of its callees with \<^verbatim>\<open>trace.Wrap\<close>.
  A collaborator may return an error of any kind; \<open>OtherError\<close> stands for the kinds
  this file never builds itself. \<open>Wrap\<close> keeps the error it wraps.
\<close>

datatype error =
    AccessDenied string
  | NotFound string
  | BadParameter string
  | OtherError string
  | Wrap error

fun cause :: "error \<Rightarrow> error" where
  "cause (Wrap e) = cause e"
| "cause (AccessDenied m) = AccessDenied m"
| "cause (NotFound m) = NotFound m"
| "cause (BadParameter m) = BadParameter m"
| "cause (OtherError m) = OtherError m"

fun IsAccessDenied :: "error \<Rightarrow> bool" where
  "IsAccessDenied (Wrap e) = IsAccessDenied e"
| "IsAccessDenied (AccessDenied m) = True"
| "IsAccessDenied (NotFound m) = False"
| "IsAccessDenied (BadParameter m) = False"
| "IsAccessDenied (OtherError m) = False"

fun IsNotFound :: "error \<Rightarrow> bool" where
  "IsNotFound (Wrap e) = IsNotFound e"
| "IsNotFound (NotFound m) = True"
| "IsNotFound (AccessDenied m) = False"
| "IsNotFound (BadParameter m) = False"
| "IsNotFound (OtherError m) = False"

section \<open>Package teleport: roles and identities carried by the request context\<close>

text \<open>
  \<^verbatim>\<open>teleport.Role\<close> is a string type. The eight role constants the switch of
  \<^verbatim>\<open>GetCheckerForBuiltinRole\<close> names are declared in package teleport, outside the
  file verified here, so their values are a parameter: \<open>role_id\<close> lists the names of
  the constants and \<open>RoleValue\<close> gives each its string. The same holds for the method
  \<^verbatim>\<open>Role.String()\<close> and for the way \<^verbatim>\<open>fmt\<close> prints a \<^verbatim>\<open>Role\<close> under \<^verbatim>\<open>%v\<close>.
\<close>

type_synonym Role = string

datatype role_id =
    RoleAuth
  | RoleProvisionToken
  | RoleNode
  | RoleProxy
  | RoleWeb
  | RoleSignup
  | RoleAdmin
  | RoleNop

record teleport_pkg =
  RoleValue :: "role_id \<Rightarrow> Role"
  Role_String :: "Role \<Rightarrow> string"
  Role_fmt_v :: "Role \<Rightarrow> string"

record LocalUser =
  LocalUsername :: string

record RemoteUser =
  Username :: string
  ClusterName :: string
  RemoteRoles :: "string list"

record BuiltinRole =
  Role :: Role

text \<open>
  The value \<^verbatim>\<open>ctx.Value(teleport.ContextUser)\<close> is an interface value: nil when the
  context carries no identity, one of the three identity structs, or a value of any other
  type (\<open>V_Other\<close> carries the type's name as \<^verbatim>\<open>%T\<close> prints it).
\<close>

datatype ContextValue =
    V_nil
  | V_LocalUser LocalUser
  | V_RemoteUser RemoteUser
  | V_BuiltinRole BuiltinRole
  | V_Other string

text \<open>A request context; the Go parameter is \<open>Context option\<close>, \<open>None\<close> for nil.\<close>

record Context =
  ContextUser :: ContextValue

fun fmt_T :: "ContextValue \<Rightarrow> string" where
  "fmt_T V_nil = ''<nil>''"
| "fmt_T (V_LocalUser u) = ''teleport.LocalUser''"
| "fmt_T (V_RemoteUser u) = ''teleport.RemoteUser''"
| "fmt_T (V_BuiltinRole r) = ''teleport.BuiltinRole''"
| "fmt_T (V_Other t) = t"

section \<open>Package services: role specifications, users, stores\<close>

text \<open>
  The string constants of package services that the source names (\<^verbatim>\<open>services.Wildcard\<close>,
  the resource kinds, \<^verbatim>\<open>services.MaxSessionTTL\<close>, \<^verbatim>\<open>services.UserCA\<close>) are not
  declared in the file verified here: \<open>services_id\<close> lists their names and the
  parameter \<open>ConstValue\<close> gives each its string.
\<close>

datatype services_id =
    Wildcard
  | UserCA
  | MaxSessionTTL
  | KindAuthServer
  | KindNode
  | KindSession
  | KindEvent
  | KindProxy
  | KindCertAuthority
  | KindUser
  | KindNamespace
  | KindRole
  | KindReverseTunnel
  | KindOIDCRequest
  | KindSAMLRequest
  | KindOIDC
  | KindSAML
  | KindClusterAuthPreference
  | KindClusterName
  | KindStaticTokens
  | KindWebSession
  | KindTrustedCluster

text \<open>
  The struct types of packages teleport and services are declared outside the file
  verified here; each is a record of the fields that the source's literals and selectors
  name. Go slices and maps may be nil: a field left out of a struct literal is \<open>None\<close>,
  an explicitly empty slice or map is \<open>Some []\<close>. A map literal is kept as the list of
  its entries in the order written.
\<close>

datatype OptionValue = V_Duration int

record RoleConditions =
  Namespaces :: "string list option"
  Logins :: "string list option"
  NodeLabels :: "(string \<times> string) list option"
  Rules :: "(string \<times> string list) list option"

record RoleSpecV3 =
  Options :: "(string \<times> OptionValue) list option"
  Allow :: RoleConditions

definition zero_RoleConditions :: RoleConditions where
  "zero_RoleConditions =
     \<lparr>Namespaces = None, Logins = None, NodeLabels = None, Rules = None\<rparr>"

definition zero_RoleSpecV3 :: RoleSpecV3 where
  "zero_RoleSpecV3 = \<lparr>Options = None, Allow = zero_RoleConditions\<rparr>"

type_synonym Traits = "(string \<times> string list) list option"

text \<open>
  Modelled from the spec: the interface \<^verbatim>\<open>services.User\<close> (the Principal), which has a
  stable name, an ordered set of assigned role names and a mapping of trait names to
  trait values; the source reads it through \<^verbatim>\<open>GetRoles()\<close> and \<^verbatim>\<open>GetTraits()\<close>.
\<close>

record User =
  GetName :: string
  GetRoles :: "string list"
  GetTraits :: Traits

record CertAuthID =
  Type :: string
  DomainName :: string

text \<open>
  A certificate authority (the trust anchor) is used only through
  \<^verbatim>\<open>ca.CombinedMapping().Map(roles)\<close>; it is modelled by that operation.
\<close>

record CertAuthority =
  CombinedMapping_Map :: "string list \<Rightarrow> error + string list"

record Identity =
  GetUser :: "string \<Rightarrow> error + User"

record Trust =
  GetCertAuthority :: "CertAuthID \<Rightarrow> bool \<Rightarrow> error + CertAuthority"

text \<open>
  The functions of package services that the source calls are parameters:
  \<^verbatim>\<open>services.NewUser\<close>, \<^verbatim>\<open>services.FromSpec\<close>, \<^verbatim>\<open>services.FetchRoles\<close>,
  \<^verbatim>\<open>services.RW()\<close>, \<^verbatim>\<open>services.RO()\<close>, \<^verbatim>\<open>services.MaxDuration()\<close>.
  \<open>'acc\<close> is the access store handle and \<open>'chk\<close> the access checker.
\<close>

record ('acc, 'chk) services_pkg =
  ConstValue :: "services_id \<Rightarrow> string"
  RW :: "string list"
  RO :: "string list"
  MaxDuration :: int
  NewUser :: "string \<Rightarrow> error + User"
  FromSpec :: "string \<Rightarrow> RoleSpecV3 \<Rightarrow> error + 'chk"
  FetchRoles :: "string list \<Rightarrow> 'acc \<Rightarrow> Traits \<Rightarrow> error + 'chk"

section \<open>lib/auth/permissions.go\<close>

record 'chk AuthContext =
  User :: User
  Checker :: 'chk

record 'acc authorizer =
  access :: 'acc
  identity :: Identity
  trust :: Trust

record 'chk contextAuthorizer =
  authContext :: "'chk AuthContext"

text \<open>The interface \<^verbatim>\<open>Authorizer\<close> has the two implementations of this file.\<close>

datatype ('acc, 'chk) Authorizer =
    A_contextAuthorizer "'chk contextAuthorizer"
  | A_authorizer "'acc authorizer"

definition GetCheckerForBuiltinRole ::
  "teleport_pkg \<Rightarrow> ('acc, 'chk) services_pkg \<Rightarrow> Role \<Rightarrow> error + 'chk" where
  "GetCheckerForBuiltinRole T S role =
    (if role = RoleValue T RoleAuth then
       FromSpec S (Role_String T role)
         \<lparr>Options = None,
          Allow = \<lparr>Namespaces = Some [ConstValue S Wildcard],
                   Logins = None, NodeLabels = None,
                   Rules = Some [(ConstValue S KindAuthServer, RW S)]\<rparr>\<rparr>
     else if role = RoleValue T RoleProvisionToken then
       FromSpec S (Role_String T role) zero_RoleSpecV3
     else if role = RoleValue T RoleNode then
       FromSpec S (Role_String T role)
         \<lparr>Options = None,
          Allow = \<lparr>Namespaces = Some [ConstValue S Wildcard],
                   Logins = None, NodeLabels = None,
                   Rules = Some
                     [(ConstValue S KindNode, RW S),
                      (ConstValue S KindSession, RW S),
                      (ConstValue S KindEvent, RW S),
                      (ConstValue S KindProxy, RO S),
                      (ConstValue S KindCertAuthority, RO S),
                      (ConstValue S KindUser, RO S),
                      (ConstValue S KindNamespace, RO S),
                      (ConstValue S KindRole, RO S),
                      (ConstValue S KindAuthServer, RO S),
                      (ConstValue S KindReverseTunnel, RO S)]\<rparr>\<rparr>
     else if role = RoleValue T RoleProxy then
       FromSpec S (Role_String T role)
         \<lparr>Options = None,
          Allow = \<lparr>Namespaces = Some [ConstValue S Wildcard],
                   Logins = None, NodeLabels = None,
                   Rules = Some
                     [(ConstValue S KindProxy, RW S),
                      (ConstValue S KindOIDCRequest, RW S),
                      (ConstValue S KindSession, RW S),
                      (ConstValue S KindEvent, RW S),
                      (ConstValue S KindSAMLRequest, RW S),
                      (ConstValue S KindOIDC, RO S),
                      (ConstValue S KindSAML, RO S),
                      (ConstValue S KindNamespace, RO S),
                      (ConstValue S KindNode, RO S),
                      (ConstValue S KindAuthServer, RO S),
                      (ConstValue S KindReverseTunnel, RO S),
                      (ConstValue S KindCertAuthority, RO S),
                      (ConstValue S KindUser, RO S),
                      (ConstValue S KindRole, RO S),
                      (ConstValue S KindClusterAuthPreference, RO S),
                      (ConstValue S KindClusterName, RO S),
                      (ConstValue S KindStaticTokens, RO S)]\<rparr>\<rparr>
     else if role = RoleValue T RoleWeb then
       FromSpec S (Role_String T role)
         \<lparr>Options = None,
          Allow = \<lparr>Namespaces = Some [ConstValue S Wildcard],
                   Logins = None, NodeLabels = None,
                   Rules = Some
                     [(ConstValue S KindWebSession, RW S),
                      (ConstValue S KindSession, RW S),
                      (ConstValue S KindAuthServer, RO S),
                      (ConstValue S KindUser, RO S),
                      (ConstValue S KindRole, RO S),
                      (ConstValue S KindNamespace, RO S),
                      (ConstValue S KindTrustedCluster, RO S)]\<rparr>\<rparr>
     else if role = RoleValue T RoleSignup then
       FromSpec S (Role_String T role)
         \<lparr>Options = None,
          Allow = \<lparr>Namespaces = Some [ConstValue S Wildcard],
                   Logins = None, NodeLabels = None,
                   Rules = Some
                     [(ConstValue S KindAuthServer, RO S),
                      (ConstValue S KindClusterAuthPreference, RO S)]\<rparr>\<rparr>
     else if role = RoleValue T RoleAdmin then
       FromSpec S (Role_String T role)
         \<lparr>Options = Some [(ConstValue S MaxSessionTTL, V_Duration (MaxDuration S))],
          Allow = \<lparr>Namespaces = Some [ConstValue S Wildcard],
                   Logins = Some [],
                   NodeLabels = Some [(ConstValue S Wildcard, ConstValue S Wildcard)],
                   Rules = Some [(ConstValue S Wildcard, RW S)]\<rparr>\<rparr>
     else if role = RoleValue T RoleNop then
       FromSpec S (Role_String T role)
         \<lparr>Options = None,
          Allow = \<lparr>Namespaces = Some [],
                   Logins = None, NodeLabels = None,
                   Rules = Some []\<rparr>\<rparr>
     else Inl (NotFound (Role_String T role @ '' is not reconginzed'')))"

definition contextForBuiltinRole ::
  "teleport_pkg \<Rightarrow> ('acc, 'chk) services_pkg \<Rightarrow> Role \<Rightarrow> error + 'chk AuthContext" where
  "contextForBuiltinRole T S r =
    (case GetCheckerForBuiltinRole T S r of
       Inl err \<Rightarrow> Inl (Wrap err)
     | Inr checker \<Rightarrow>
        (case NewUser S (''builtin-'' @ Role_fmt_v T r) of
           Inl err \<Rightarrow> Inl (Wrap err)
         | Inr user \<Rightarrow> Inr \<lparr>User = user, Checker = checker\<rparr>))"

definition contextForLocalUser ::
  "('acc, 'chk) services_pkg \<Rightarrow> string \<Rightarrow> Identity \<Rightarrow> 'acc \<Rightarrow> error + 'chk AuthContext" where
  "contextForLocalUser S username identity' access' =
    (case GetUser identity' username of
       Inl err \<Rightarrow> Inl (Wrap err)
     | Inr user \<Rightarrow>
        (case FetchRoles S (GetRoles user) access' (GetTraits user) of
           Inl err \<Rightarrow> Inl (Wrap err)
         | Inr checker \<Rightarrow> Inr \<lparr>User = user, Checker = checker\<rparr>))"

definition authorizeLocalUser ::
  "('acc, 'chk) services_pkg \<Rightarrow> 'acc authorizer \<Rightarrow> LocalUser \<Rightarrow> error + 'chk AuthContext" where
  "authorizeLocalUser S a u = contextForLocalUser S (LocalUsername u) (identity a) (access a)"

definition authorizeRemoteUser ::
  "('acc, 'chk) services_pkg \<Rightarrow> 'acc authorizer \<Rightarrow> RemoteUser \<Rightarrow> error + 'chk AuthContext" where
  "authorizeRemoteUser S a u =
    (case GetCertAuthority (trust a)
            \<lparr>Type = ConstValue S UserCA, DomainName = ClusterName u\<rparr> False of
       Inl err \<Rightarrow> Inl (Wrap err)
     | Inr ca \<Rightarrow>
        (case CombinedMapping_Map ca (RemoteRoles u) of
           Inl err \<Rightarrow>
             Inl (AccessDenied (''failed to map roles for remote user '' @ Username u
                                @ '' from cluster '' @ ClusterName u))
         | Inr roleNames \<Rightarrow>
            (case FetchRoles S roleNames (access a) None of
               Inl err \<Rightarrow> Inl (Wrap err)
             | Inr checker \<Rightarrow>
                (case NewUser S (''remote-'' @ Username u @ ''-'' @ ClusterName u) of
                   Inl err \<Rightarrow> Inl (Wrap err)
                 | Inr user \<Rightarrow> Inr \<lparr>User = user, Checker = checker\<rparr>))))"

definition authorizeBuiltinRole ::
  "teleport_pkg \<Rightarrow> ('acc, 'chk) services_pkg \<Rightarrow> 'acc authorizer \<Rightarrow> BuiltinRole
     \<Rightarrow> error + 'chk AuthContext" where
  "authorizeBuiltinRole T S a r = contextForBuiltinRole T S (Role r)"

text \<open>The method \<^verbatim>\<open>(a *authorizer) Authorize(ctx)\<close>.\<close>

definition authorizer_Authorize ::
  "teleport_pkg \<Rightarrow> ('acc, 'chk) services_pkg \<Rightarrow> 'acc authorizer \<Rightarrow> Context option
     \<Rightarrow> error + 'chk AuthContext" where
  "authorizer_Authorize T S a ctx =
    (case ctx of
       None \<Rightarrow> Inl (AccessDenied ''missing authentication context'')
     | Some c \<Rightarrow>
        (case ContextUser c of
           V_LocalUser user \<Rightarrow> authorizeLocalUser S a user
         | V_RemoteUser user \<Rightarrow> authorizeRemoteUser S a user
         | V_BuiltinRole user \<Rightarrow> authorizeBuiltinRole T S a user
         | userI \<Rightarrow> Inl (AccessDenied (''unsupported context type '' @ fmt_T userI))))"





text \<open>The three collaborators are interface values, nil (\<open>None\<close>) when unset.\<close>

definition NewAuthorizer ::
  "'acc option \<Rightarrow> Identity option \<Rightarrow> Trust option \<Rightarrow> error + ('acc, 'chk) Authorizer" where
  "NewAuthorizer access' identity' trust' =
    (case access' of
       None \<Rightarrow> Inl (BadParameter ''missing parameter access'')
     | Some ac \<Rightarrow>
        (case identity' of
           None \<Rightarrow> Inl (BadParameter ''missing parameter identity'')
         | Some idn \<Rightarrow>
            (case trust' of
               None \<Rightarrow> Inl (BadParameter ''missing parameter trust'')
             | Some tr \<Rightarrow> Inr (A_authorizer \<lparr>access = ac, identity = idn, trust = tr\<rparr>))))"

section \<open>The builtin policy table as the specification words it\<close>

text \<open>
  The recognized builtin roles: the constants the switch of
  \<^verbatim>\<open>GetCheckerForBuiltinRole\<close> has a case for.
\<close>

definition builtin_role_ids :: "role_id list" where
  "builtin_role_ids =
     [RoleAuth, RoleProvisionToken, RoleNode, RoleProxy, RoleWeb, RoleSignup, RoleAdmin, RoleNop]"

definition BuiltinRoles :: "teleport_pkg \<Rightarrow> Role list" where
  "BuiltinRoles T = map (RoleValue T) builtin_role_ids"

text \<open>
  The specification's table of grants, written from its words and not from the code.
  Its header gives every row the wildcard namespace unless the row notes otherwise; a row
  lists the kinds the role may read and write (RW) and the kinds it may only read (R).
  \<open>grants\<close> turns such a row into a role specification. The row of provision-token
  says only that the rule set is empty, so it is the row with no kind at all, in the
  wildcard namespace. The row of admin adds an option, a node label selector and an empty
  login list; the row of nop notes an empty namespace set and an empty rule set.
\<close>

definition grants ::
  "('acc, 'chk) services_pkg \<Rightarrow> services_id list \<Rightarrow> services_id list \<Rightarrow> RoleSpecV3" where
  "grants S rw ro =
     \<lparr>Options = None,
      Allow = \<lparr>Namespaces = Some [ConstValue S Wildcard],
               Logins = None,
               NodeLabels = None,
               Rules = Some (map (\<lambda>k. (ConstValue S k, RW S)) rw
                            @ map (\<lambda>k. (ConstValue S k, RO S)) ro)\<rparr>\<rparr>"

fun BuiltinPolicyTable :: "('acc, 'chk) services_pkg \<Rightarrow> role_id \<Rightarrow> RoleSpecV3" where
  "BuiltinPolicyTable S RoleAuth = grants S [KindAuthServer] []"
| "BuiltinPolicyTable S RoleProvisionToken = grants S [] []"
| "BuiltinPolicyTable S RoleNode =
     grants S [KindNode, KindSession, KindEvent]
       [KindProxy, KindCertAuthority, KindUser, KindNamespace, KindRole, KindAuthServer,
        KindReverseTunnel]"
| "BuiltinPolicyTable S RoleProxy =
     grants S [KindProxy, KindOIDCRequest, KindSession, KindEvent, KindSAMLRequest]
       [KindOIDC, KindSAML, KindNamespace, KindNode, KindAuthServer, KindReverseTunnel,
        KindCertAuthority, KindUser, KindRole, KindClusterAuthPreference, KindClusterName,
        KindStaticTokens]"
| "BuiltinPolicyTable S RoleWeb =
     grants S [KindWebSession, KindSession]
       [KindAuthServer, KindUser, KindRole, KindNamespace, KindTrustedCluster]"
| "BuiltinPolicyTable S RoleSignup =
     grants S [] [KindAuthServer, KindClusterAuthPreference]"
| "BuiltinPolicyTable S RoleAdmin =
     \<lparr>Options = Some [(ConstValue S MaxSessionTTL, V_Duration (MaxDuration S))],
      Allow = \<lparr>Namespaces = Some [ConstValue S Wildcard],
               Logins = Some [],
               NodeLabels = Some [(ConstValue S Wildcard, ConstValue S Wildcard)],
               Rules = Some [(ConstValue S Wildcard, RW S)]\<rparr>\<rparr>"
| "BuiltinPolicyTable S RoleNop =
     \<lparr>Options = None,
      Allow = \<lparr>Namespaces = Some [], Logins = None, NodeLabels = None, Rules = Some []\<rparr>\<rparr>"

text \<open>The name of the principal of a result, when there is one.\<close>

definition PrincipalName :: "error + 'chk AuthContext \<Rightarrow> error + string" where
  "PrincipalName res = (case res of Inl err \<Rightarrow> Inl err | Inr c \<Rightarrow> Inr (GetName (User c)))"

section \<open>The same methods over collaborators with state\<close>











section \<open>A concrete cluster\<close>

text \<open>
  One instance of the parameters, on which the theorems below are run. The role names
  follow the specification's identifiers; the checker records what it was compiled from;
  the access store is the list of the role names it holds.
\<close>

fun example_RoleValue :: "role_id \<Rightarrow> Role" where
  "example_RoleValue RoleAuth = ''auth-server''"
| "example_RoleValue RoleProvisionToken = ''provision-token''"
| "example_RoleValue RoleNode = ''node''"
| "example_RoleValue RoleProxy = ''proxy''"
| "example_RoleValue RoleWeb = ''web''"
| "example_RoleValue RoleSignup = ''signup''"
| "example_RoleValue RoleAdmin = ''admin''"
| "example_RoleValue RoleNop = ''nop''"

definition example_teleport :: teleport_pkg where
  "example_teleport =
     \<lparr>RoleValue = example_RoleValue, Role_String = (\<lambda>r. r), Role_fmt_v = (\<lambda>r. r)\<rparr>"

fun example_ConstValue :: "services_id \<Rightarrow> string" where
  "example_ConstValue Wildcard = ''*''"
| "example_ConstValue UserCA = ''user''"
| "example_ConstValue MaxSessionTTL = ''max_session_ttl''"
| "example_ConstValue KindAuthServer = ''auth_server''"
| "example_ConstValue KindNode = ''node''"
| "example_ConstValue KindSession = ''session''"
| "example_ConstValue KindEvent = ''event''"
| "example_ConstValue KindProxy = ''proxy''"
| "example_ConstValue KindCertAuthority = ''cert_authority''"
| "example_ConstValue KindUser = ''user''"
| "example_ConstValue KindNamespace = ''namespace''"
| "example_ConstValue KindRole = ''role''"
| "example_ConstValue KindReverseTunnel = ''tunnel''"
| "example_ConstValue KindOIDCRequest = ''oidc_request''"
| "example_ConstValue KindSAMLRequest = ''saml_request''"
| "example_ConstValue KindOIDC = ''oidc''"
| "example_ConstValue KindSAML = ''saml''"
| "example_ConstValue KindClusterAuthPreference = ''cluster_auth_preference''"
| "example_ConstValue KindClusterName = ''cluster_name''"
| "example_ConstValue KindStaticTokens = ''static_tokens''"
| "example_ConstValue KindWebSession = ''web_session''"
| "example_ConstValue KindTrustedCluster = ''trusted_cluster''"

datatype example_checker =
    CompiledFromSpec string RoleSpecV3
  | CompiledFromRoles "string list" Traits

definition example_NewUser :: "string \<Rightarrow> error + User" where
  "example_NewUser name =
     (if name = [] then Inl (BadParameter ''user name cannot be empty'')
      else Inr \<lparr>GetName = name, GetRoles = [], GetTraits = None\<rparr>)"

definition example_FetchRoles ::
  "string list \<Rightarrow> string list \<Rightarrow> Traits \<Rightarrow> error + example_checker" where
  "example_FetchRoles roleNames held traits =
     (if list_all (\<lambda>n. n \<in> set held) roleNames then Inr (CompiledFromRoles roleNames traits)
      else Inl (NotFound ''role is not found''))"

definition example_services :: "(string list, example_checker) services_pkg" where
  "example_services =
     \<lparr>ConstValue = example_ConstValue,
      RW = [''read'', ''list'', ''create'', ''update'', ''delete''],
      RO = [''read'', ''list''],
      MaxDuration = 9223372036854775807,
      NewUser = example_NewUser,
      FromSpec = (\<lambda>name spec. Inr (CompiledFromSpec name spec)),
      FetchRoles = example_FetchRoles\<rparr>"

definition example_Map :: "string list \<Rightarrow> error + string list" where
  "example_Map remoteRoles =
     (if [] \<in> set remoteRoles then Inl (BadParameter ''empty role name'')
      else Inr (concat (map (\<lambda>r. if r = ''viewer'' then [''local-viewer''] else [])
                            remoteRoles)))"

definition example_GetUser :: "string \<Rightarrow> error + User" where
  "example_GetUser name =
     (if name = ''bob'' then
        Inr \<lparr>GetName = ''bob'', GetRoles = [''admin''],
             GetTraits = Some [(''logins'', [''root''])]\<rparr>
      else if name = ''carol'' then
        Inr \<lparr>GetName = ''carol'', GetRoles = [''retired''], GetTraits = None\<rparr>
      else Inl (NotFound (''user '' @ name @ '' is not found'')))"

definition example_GetCertAuthority :: "CertAuthID \<Rightarrow> bool \<Rightarrow> error + CertAuthority" where
  "example_GetCertAuthority cid loadSigningKeys =
     (if Type cid = ''user'' \<and> DomainName cid = ''cluster-b''
      then Inr \<lparr>CombinedMapping_Map = example_Map\<rparr>
      else Inl (NotFound (''authority '' @ DomainName cid @ '' is not found'')))"

definition example_authorizer :: "string list authorizer" where
  "example_authorizer =
     \<lparr>access = [''local-viewer'', ''admin''],
      identity = \<lparr>GetUser = example_GetUser\<rparr>,
      trust = \<lparr>GetCertAuthority = example_GetCertAuthority\<rparr>\<rparr>"






section \<open>Facts shared by the proofs\<close>

lemmas example_defs =
  example_teleport_def example_services_def example_authorizer_def example_NewUser_def
  example_FetchRoles_def example_Map_def example_GetUser_def example_GetCertAuthority_def

lemmas authorize_defs =
  authorizer_Authorize_def authorizeLocalUser_def authorizeRemoteUser_def
  authorizeBuiltinRole_def contextForBuiltinRole_def contextForLocalUser_def

lemma GetCheckerForBuiltinRole_unrecognized:
  "role \<notin> set (BuiltinRoles T) \<Longrightarrow>
   GetCheckerForBuiltinRole T S role = Inl (NotFound (Role_String T role @ '' is not reconginzed''))"
  by (simp add: GetCheckerForBuiltinRole_def BuiltinRoles_def builtin_role_ids_def)

lemma GetCheckerForBuiltinRole_table:
  assumes "distinct (BuiltinRoles T)"
  shows "GetCheckerForBuiltinRole T S (RoleValue T c)
           = FromSpec S (Role_String T (RoleValue T c))
               (if c = RoleProvisionToken then zero_RoleSpecV3 else BuiltinPolicyTable S c)"
  using assms
  by (cases c)
     (auto simp add: GetCheckerForBuiltinRole_def BuiltinRoles_def builtin_role_ids_def
        grants_def)

lemma example_roles_distinct: "distinct (BuiltinRoles example_teleport)"
  by (simp add: BuiltinRoles_def builtin_role_ids_def example_teleport_def)

lemma example_NewUser_name: "NewUser example_services n = Inr v \<Longrightarrow> GetName v = n"
  by (auto simp: example_services_def example_NewUser_def split: if_splits)






section \<open>Builtin roles\<close>

text \<open>
  C1 (as the code has it). Let the eight role constants be pairwise distinct, as the
  switch of \<^verbatim>\<open>GetCheckerForBuiltinRole\<close> requires of its cases, and let \<open>r\<close> be a
  builtin role claim for one of them, \<open>c\<close>. For auth-server, node, proxy, web, signup,
  admin and nop the code compiles, under the name \<^verbatim>\<open>role.String()\<close>, exactly the role
  specification that the specification's table fixes for \<open>c\<close> (namespaces, verbs per kind,
  options). For provision-token it compiles the empty specification
  \<^verbatim>\<open>services.RoleSpecV3{}\<close>: no rule, as the table says, and no namespace, where the table
  gives the wildcard namespace. Whenever \<^verbatim>\<open>services.FromSpec\<close> compiles that specification
  and \<^verbatim>\<open>services.NewUser\<close> accepts the name \<^verbatim>\<open>builtin-<r>\<close>, \<^verbatim>\<open>Authorize\<close> succeeds with
  exactly that checker and that user, whatever the three stores of the authorizer are:
  none of them is consulted. The principal's name is \<^verbatim>\<open>builtin-<r>\<close>, with a hyphen,
  where \<^verbatim>\<open><r>\<close> is the role as \<^verbatim>\<open>%v\<close> prints it and \<^verbatim>\<open>NewUser\<close> is taken to name the
  user it builds as asked.
\<close>

theorem Authorize_builtin_role:
  assumes "distinct (BuiltinRoles T)"
    and "Role r = RoleValue T c"
    and "FromSpec S (Role_String T (Role r))
           (if c = RoleProvisionToken then zero_RoleSpecV3 else BuiltinPolicyTable S c) = Inr chk"
    and "NewUser S (''builtin-'' @ Role_fmt_v T (Role r)) = Inr usr"
    and "\<And>n v. NewUser S n = Inr v \<Longrightarrow> GetName v = n"
  shows "authorizer_Authorize T S a (Some \<lparr>ContextUser = V_BuiltinRole r\<rparr>)
           = Inr \<lparr>User = usr, Checker = chk\<rparr>
         \<and> GetName usr = ''builtin-'' @ Role_fmt_v T (Role r)"
proof -
  have "GetCheckerForBuiltinRole T S (Role r) = Inr chk"
    using GetCheckerForBuiltinRole_table [OF assms(1), of S c] assms(2,3) by simp
  moreover have "GetName usr = ''builtin-'' @ Role_fmt_v T (Role r)"
    using assms(4,5) by blast
  ultimately show ?thesis
    using assms(4) by (simp add: authorize_defs)
qed

text \<open>The admin role and the provision-token role of the concrete cluster.\<close>

theorem Authorize_builtin_role_witness:
  "distinct (BuiltinRoles example_teleport)
   \<and> authorizer_Authorize example_teleport example_services example_authorizer
     (Some \<lparr>ContextUser = V_BuiltinRole \<lparr>Role = ''admin''\<rparr>\<rparr>)
   = Inr \<lparr>User = \<lparr>GetName = ''builtin-admin'', GetRoles = [], GetTraits = None\<rparr>,
          Checker = CompiledFromSpec ''admin''
            \<lparr>Options = Some [(''max_session_ttl'', V_Duration 9223372036854775807)],
             Allow = \<lparr>Namespaces = Some [''*''], Logins = Some [],
                      NodeLabels = Some [(''*'', ''*'')],
                      Rules = Some [(''*'', [''read'', ''list'', ''create'', ''update'', ''delete''])]\<rparr>\<rparr>\<rparr>
   \<and> authorizer_Authorize example_teleport example_services example_authorizer
     (Some \<lparr>ContextUser = V_BuiltinRole \<lparr>Role = ''provision-token''\<rparr>\<rparr>)
   = Inr \<lparr>User = \<lparr>GetName = ''builtin-provision-token'', GetRoles = [], GetTraits = None\<rparr>,
          Checker = CompiledFromSpec ''provision-token''
            \<lparr>Options = None,
             Allow = \<lparr>Namespaces = None, Logins = None, NodeLabels = None,
                      Rules = None\<rparr>\<rparr>\<rparr>"
proof -
  have n1: "Role \<lparr>Role = ''admin''\<rparr> = RoleValue example_teleport RoleAdmin"
    by (simp add: example_teleport_def)
  have f1: "FromSpec example_services
              (Role_String example_teleport (Role \<lparr>Role = ''admin''\<rparr>))
              (if RoleAdmin = RoleProvisionToken then zero_RoleSpecV3
               else BuiltinPolicyTable example_services RoleAdmin)
            = Inr (CompiledFromSpec ''admin''
                \<lparr>Options = Some [(''max_session_ttl'', V_Duration 9223372036854775807)],
                 Allow = \<lparr>Namespaces = Some [''*''], Logins = Some [],
                          NodeLabels = Some [(''*'', ''*'')],
                          Rules = Some [(''*'', [''read'', ''list'', ''create'', ''update'',
                                                 ''delete''])]\<rparr>\<rparr>)"
    by (simp add: example_teleport_def example_services_def)
  have u1: "NewUser example_services
              (''builtin-'' @ Role_fmt_v example_teleport (Role \<lparr>Role = ''admin''\<rparr>))
            = Inr \<lparr>GetName = ''builtin-admin'', GetRoles = [], GetTraits = None\<rparr>"
    by (simp add: example_teleport_def example_services_def example_NewUser_def)
  have n2: "Role \<lparr>Role = ''provision-token''\<rparr> = RoleValue example_teleport RoleProvisionToken"
    by (simp add: example_teleport_def)
  have f2: "FromSpec example_services
              (Role_String example_teleport (Role \<lparr>Role = ''provision-token''\<rparr>))
              (if RoleProvisionToken = RoleProvisionToken then zero_RoleSpecV3
               else BuiltinPolicyTable example_services RoleProvisionToken)
            = Inr (CompiledFromSpec ''provision-token''
                \<lparr>Options = None,
                 Allow = \<lparr>Namespaces = None, Logins = None, NodeLabels = None,
                          Rules = None\<rparr>\<rparr>)"
    by (simp add: example_teleport_def example_services_def zero_RoleSpecV3_def
          zero_RoleConditions_def)
  have u2: "NewUser example_services
              (''builtin-'' @ Role_fmt_v example_teleport (Role \<lparr>Role = ''provision-token''\<rparr>))
            = Inr \<lparr>GetName = ''builtin-provision-token'', GetRoles = [], GetTraits = None\<rparr>"
    by (simp add: example_teleport_def example_services_def example_NewUser_def)
  show ?thesis
    using example_roles_distinct
      Authorize_builtin_role [OF example_roles_distinct n1 f1 u1 example_NewUser_name,
        of example_authorizer]
      Authorize_builtin_role [OF example_roles_distinct n2 f2 u2 example_NewUser_name,
        of example_authorizer]
    by blast
qed

text \<open>
  The name is not \<^verbatim>\<open>builtin:<r>\<close>: for the role \<^verbatim>\<open>nop\<close> of the concrete cluster the
  principal is named \<^verbatim>\<open>builtin-nop\<close>. And the checker of provision-token is not compiled
  from the table's row, which has the wildcard namespace and an empty rule set: it is
  compiled from the specification with no namespace and no rule set.
\<close>

theorem Authorize_builtin_role_name_counterexample:
  "PrincipalName (authorizer_Authorize example_teleport example_services example_authorizer
     (Some \<lparr>ContextUser = V_BuiltinRole \<lparr>Role = ''nop''\<rparr>\<rparr>)) = Inr ''builtin-nop''
   \<and> PrincipalName (authorizer_Authorize example_teleport example_services example_authorizer
     (Some \<lparr>ContextUser = V_BuiltinRole \<lparr>Role = ''nop''\<rparr>\<rparr>)) \<noteq> Inr ''builtin:nop''
   \<and> authorizer_Authorize example_teleport example_services example_authorizer
       (Some \<lparr>ContextUser = V_BuiltinRole \<lparr>Role = ''provision-token''\<rparr>\<rparr>)
     = Inr \<lparr>User = \<lparr>GetName = ''builtin-provision-token'', GetRoles = [], GetTraits = None\<rparr>,
            Checker = CompiledFromSpec ''provision-token''
              \<lparr>Options = None,
               Allow = \<lparr>Namespaces = None, Logins = None, NodeLabels = None,
                        Rules = None\<rparr>\<rparr>\<rparr>
   \<and> BuiltinPolicyTable example_services RoleProvisionToken
     = \<lparr>Options = None,
        Allow = \<lparr>Namespaces = Some [''*''], Logins = None, NodeLabels = None,
                 Rules = Some []\<rparr>\<rparr>
   \<and> FromSpec example_services ''provision-token''
         (BuiltinPolicyTable example_services RoleProvisionToken)
     \<noteq> Inr (CompiledFromSpec ''provision-token''
              \<lparr>Options = None,
               Allow = \<lparr>Namespaces = None, Logins = None, NodeLabels = None,
                        Rules = None\<rparr>\<rparr>)"
  by (simp add: PrincipalName_def authorize_defs GetCheckerForBuiltinRole_def example_defs
        grants_def zero_RoleSpecV3_def zero_RoleConditions_def)

text \<open>
  C4. For every builtin role claim whose role is none of the eight the table has,
  \<^verbatim>\<open>Authorize\<close> fails: the result is the not-found error of
  \<^verbatim>\<open>GetCheckerForBuiltinRole\<close>, whose message names the role (\<^verbatim>\<open>role.String()\<close>),
  wrapped once by \<^verbatim>\<open>contextForBuiltinRole\<close>. It is an error of kind not-found and
  never a success.
\<close>

theorem Authorize_unrecognized_builtin_role:
  assumes "Role r \<notin> set (BuiltinRoles T)"
  shows "authorizer_Authorize T S a (Some \<lparr>ContextUser = V_BuiltinRole r\<rparr>)
           = Inl (Wrap (NotFound (Role_String T (Role r) @ '' is not reconginzed'')))
         \<and> IsNotFound (Wrap (NotFound (Role_String T (Role r) @ '' is not reconginzed'')))"
  using GetCheckerForBuiltinRole_unrecognized [OF assms, of S]
  by (simp add: authorize_defs)

theorem Authorize_unrecognized_builtin_role_witness:
  "''root'' \<notin> set (BuiltinRoles example_teleport)
   \<and> authorizer_Authorize example_teleport example_services example_authorizer
        (Some \<lparr>ContextUser = V_BuiltinRole \<lparr>Role = ''root''\<rparr>\<rparr>)
      = Inl (Wrap (NotFound ''root is not reconginzed''))"
proof -
  have h: "Role \<lparr>Role = ''root''\<rparr> \<notin> set (BuiltinRoles example_teleport)"
    by (simp add: BuiltinRoles_def builtin_role_ids_def example_teleport_def)
  show ?thesis
    using h Authorize_unrecognized_builtin_role
            [OF h, of example_services example_authorizer]
    by (simp add: example_teleport_def)
qed

section \<open>Remote users\<close>

text \<open>
  C2 (as the code has it). Whenever \<^verbatim>\<open>Authorize\<close> returns a context for a remote user
  claim, the principal is the user \<^verbatim>\<open>services.NewUser\<close> built for the name
  \<^verbatim>\<open>remote-<username>-<sourceClusterName>\<close>, with hyphens; taking \<^verbatim>\<open>NewUser\<close> to name the
  user as asked, that is the principal's name, and it differs from the raw username, so
  it is not the name of a local record stored under that username.
\<close>

theorem Authorize_remote_principal_name:
  assumes "authorizer_Authorize T S a (Some \<lparr>ContextUser = V_RemoteUser u\<rparr>) = Inr c"
    and "\<And>n v. NewUser S n = Inr v \<Longrightarrow> GetName v = n"
  shows "GetName (User c) = ''remote-'' @ Username u @ ''-'' @ ClusterName u
         \<and> GetName (User c) \<noteq> Username u"
proof -
  have "NewUser S (''remote-'' @ Username u @ ''-'' @ ClusterName u) = Inr (User c)"
    using assms(1) by (auto simp add: authorize_defs split: sum.splits)
  then have "GetName (User c) = ''remote-'' @ Username u @ ''-'' @ ClusterName u"
    by (rule assms(2))
  moreover have "length (''remote-'' @ Username u @ ''-'' @ ClusterName u) \<noteq> length (Username u)"
    by simp
  ultimately show ?thesis by force
qed

theorem Authorize_remote_principal_name_witness:
  "authorizer_Authorize example_teleport example_services example_authorizer
     (Some \<lparr>ContextUser = V_RemoteUser
        \<lparr>Username = ''alice'', ClusterName = ''cluster-b'', RemoteRoles = [''viewer'']\<rparr>\<rparr>)
     = Inr \<lparr>User = \<lparr>GetName = ''remote-alice-cluster-b'', GetRoles = [], GetTraits = None\<rparr>,
            Checker = CompiledFromRoles [''local-viewer''] None\<rparr>
   \<and> ''remote-alice-cluster-b'' \<noteq> ''alice''"
proof -
  have h: "authorizer_Authorize example_teleport example_services example_authorizer
     (Some \<lparr>ContextUser = V_RemoteUser
        \<lparr>Username = ''alice'', ClusterName = ''cluster-b'', RemoteRoles = [''viewer'']\<rparr>\<rparr>)
     = Inr \<lparr>User = \<lparr>GetName = ''remote-alice-cluster-b'', GetRoles = [], GetTraits = None\<rparr>,
            Checker = CompiledFromRoles [''local-viewer''] None\<rparr>"
    by (simp add: authorize_defs example_defs)
  show ?thesis
    using h Authorize_remote_principal_name [OF h example_NewUser_name]
    by simp
qed

text \<open>
  The name is not \<^verbatim>\<open>remote:<username>:<sourceClusterName>\<close>: the remote user alice of
  cluster-b, whose role viewer maps to local-viewer, is named \<^verbatim>\<open>remote-alice-cluster-b\<close>.
\<close>

theorem Authorize_remote_principal_name_counterexample:
  "PrincipalName (authorizer_Authorize example_teleport example_services example_authorizer
     (Some \<lparr>ContextUser = V_RemoteUser
        \<lparr>Username = ''alice'', ClusterName = ''cluster-b'', RemoteRoles = [''viewer'']\<rparr>\<rparr>))
     = Inr ''remote-alice-cluster-b''
   \<and> PrincipalName (authorizer_Authorize example_teleport example_services example_authorizer
     (Some \<lparr>ContextUser = V_RemoteUser
        \<lparr>Username = ''alice'', ClusterName = ''cluster-b'', RemoteRoles = [''viewer'']\<rparr>\<rparr>))
     \<noteq> Inr ''remote:alice:cluster-b''"
  by (simp add: PrincipalName_def authorize_defs example_defs)

text \<open>
  C5 (as the code has it). For every remote user claim whose source cluster has a
  certificate authority and whose role mapping returns an error, \<^verbatim>\<open>Authorize\<close> fails with
  the access-denied error \<^verbatim>\<open>failed to map roles for remote user <username> from cluster
  <sourceClusterName>\<close>.
\<close>

theorem Authorize_remote_map_failure:
  assumes "GetCertAuthority (trust a)
             \<lparr>Type = ConstValue S UserCA, DomainName = ClusterName u\<rparr> False = Inr ca"
    and "CombinedMapping_Map ca (RemoteRoles u) = Inl e"
  shows "authorizer_Authorize T S a (Some \<lparr>ContextUser = V_RemoteUser u\<rparr>)
           = Inl (AccessDenied (''failed to map roles for remote user '' @ Username u
                                @ '' from cluster '' @ ClusterName u))"
  using assms by (simp add: authorize_defs)

theorem Authorize_remote_map_failure_witness:
  "example_Map [''''] = Inl (BadParameter ''empty role name'')
   \<and> authorizer_Authorize example_teleport example_services example_authorizer
     (Some \<lparr>ContextUser = V_RemoteUser
        \<lparr>Username = ''alice'', ClusterName = ''cluster-b'', RemoteRoles = ['''']\<rparr>\<rparr>)
     = Inl (AccessDenied ''failed to map roles for remote user alice from cluster cluster-b'')"
  using Authorize_remote_map_failure
    [of example_authorizer example_services
        "\<lparr>Username = ''alice'', ClusterName = ''cluster-b'', RemoteRoles = ['''']\<rparr>"
        "\<lparr>CombinedMapping_Map = example_Map\<rparr>" "BadParameter ''empty role name''"
        example_teleport]
  by (simp add: example_defs)

text \<open>
  A mapping that returns no role and no error is not denied: cluster-b has a certificate
  authority, the role guest maps to the empty list, and \<^verbatim>\<open>Authorize\<close> succeeds with the
  checker compiled from the empty list of roles.
\<close>

theorem Authorize_remote_empty_mapping_counterexample:
  "GetCertAuthority (trust example_authorizer)
     \<lparr>Type = ConstValue example_services UserCA, DomainName = ''cluster-b''\<rparr> False
     = Inr \<lparr>CombinedMapping_Map = example_Map\<rparr>
   \<and> example_Map [''guest''] = Inr []
   \<and> authorizer_Authorize example_teleport example_services example_authorizer
     (Some \<lparr>ContextUser = V_RemoteUser
        \<lparr>Username = ''alice'', ClusterName = ''cluster-b'', RemoteRoles = [''guest'']\<rparr>\<rparr>)
     = Inr \<lparr>User = \<lparr>GetName = ''remote-alice-cluster-b'', GetRoles = [], GetTraits = None\<rparr>,
            Checker = CompiledFromRoles [] None\<rparr>"
  by (simp add: authorize_defs example_defs)

text \<open>
  C8. For a remote user claim whose roles map to \<open>roleNames\<close>, the checker of any context
  \<^verbatim>\<open>Authorize\<close> returns is the one \<^verbatim>\<open>services.FetchRoles\<close> compiles from \<open>roleNames\<close> and
  the access store with nil traits. For a local user claim, the principal of any context
  returned is the record the identity store holds, and the checker is the one compiled
  from that record's roles, the access store and that record's traits.
\<close>

theorem Authorize_checker_source:
  "(GetCertAuthority (trust a)
        \<lparr>Type = ConstValue S UserCA, DomainName = ClusterName u\<rparr> False = Inr ca
      \<longrightarrow> CombinedMapping_Map ca (RemoteRoles u) = Inr roleNames
      \<longrightarrow> authorizer_Authorize T S a (Some \<lparr>ContextUser = V_RemoteUser u\<rparr>) = Inr c
      \<longrightarrow> FetchRoles S roleNames (access a) None = Inr (Checker c))
   \<and> (authorizer_Authorize T S a (Some \<lparr>ContextUser = V_LocalUser l\<rparr>) = Inr c'
      \<longrightarrow> GetUser (identity a) (LocalUsername l) = Inr (User c')
          \<and> FetchRoles S (GetRoles (User c')) (access a) (GetTraits (User c')) = Inr (Checker c'))"
  by (auto simp add: authorize_defs split: sum.splits)

theorem Authorize_checker_source_witness:
  "authorizer_Authorize example_teleport example_services example_authorizer
     (Some \<lparr>ContextUser = V_RemoteUser
        \<lparr>Username = ''alice'', ClusterName = ''cluster-b'', RemoteRoles = [''viewer'']\<rparr>\<rparr>)
     = Inr \<lparr>User = \<lparr>GetName = ''remote-alice-cluster-b'', GetRoles = [], GetTraits = None\<rparr>,
            Checker = CompiledFromRoles [''local-viewer''] None\<rparr>
   \<and> FetchRoles example_services [''local-viewer''] (access example_authorizer) None
     = Inr (CompiledFromRoles [''local-viewer''] None)
   \<and> authorizer_Authorize example_teleport example_services example_authorizer
     (Some \<lparr>ContextUser = V_LocalUser \<lparr>LocalUsername = ''bob''\<rparr>\<rparr>)
     = Inr \<lparr>User = \<lparr>GetName = ''bob'', GetRoles = [''admin''],
                     GetTraits = Some [(''logins'', [''root''])]\<rparr>,
            Checker = CompiledFromRoles [''admin''] (Some [(''logins'', [''root''])])\<rparr>
   \<and> FetchRoles example_services [''admin''] (access example_authorizer)
        (Some [(''logins'', [''root''])])
     = Inr (CompiledFromRoles [''admin''] (Some [(''logins'', [''root''])]))"
  using
    Authorize_checker_source
      [where a = example_authorizer and S = example_services and T = example_teleport
         and u = "\<lparr>Username = ''alice'', ClusterName = ''cluster-b'', RemoteRoles = [''viewer'']\<rparr>"
         and ca = "\<lparr>CombinedMapping_Map = example_Map\<rparr>"
         and roleNames = "[''local-viewer'']"
         and l = "\<lparr>LocalUsername = ''bob''\<rparr>"]
  by (simp add: authorize_defs example_defs)

section \<open>Missing identities and failing collaborators\<close>

text \<open>
  C3 (as the code has it). A request with no identity fails with an access-denied error
  and never returns a context: when the request context itself is nil the message is
  \<^verbatim>\<open>missing authentication context\<close>; when the context is there and carries no
  identity, the value read from it is nil, the type switch takes its default case and the
  message is \<^verbatim>\<open>unsupported context type <nil>\<close>.
\<close>

theorem Authorize_missing_identity:
  "authorizer_Authorize T S a None = Inl (AccessDenied ''missing authentication context'')
   \<and> authorizer_Authorize T S a (Some \<lparr>ContextUser = V_nil\<rparr>)
       = Inl (AccessDenied ''unsupported context type <nil>'')
   \<and> IsAccessDenied (AccessDenied ''unsupported context type <nil>'')"
  by (simp add: authorizer_Authorize_def)

text \<open>
  A context that carries no identity does not give the message
  \<^verbatim>\<open>missing authentication context\<close>.
\<close>

theorem Authorize_no_identity_counterexample:
  "authorizer_Authorize example_teleport example_services example_authorizer
     (Some \<lparr>ContextUser = V_nil\<rparr>)
   \<noteq> Inl (AccessDenied ''missing authentication context'')"
  by (simp add: authorizer_Authorize_def)

text \<open>
  C6. When the trust store has no certificate authority for the claimed cluster of a
  remote user claim, that is its lookup returns an error, \<^verbatim>\<open>Authorize\<close> fails with that
  error wrapped. When the identity store's lookup of a local user claim's username
  returns an error, \<^verbatim>\<open>Authorize\<close> fails with that error wrapped, of kind not-found when
  the store's error is, and returns no principal.
\<close>

theorem Authorize_lookup_failure:
  "(GetCertAuthority (trust a) \<lparr>Type = ConstValue S UserCA, DomainName = ClusterName u\<rparr> False
      = Inl e
    \<longrightarrow> authorizer_Authorize T S a (Some \<lparr>ContextUser = V_RemoteUser u\<rparr>) = Inl (Wrap e))
   \<and> (GetUser (identity a) (LocalUsername l) = Inl e'
    \<longrightarrow> authorizer_Authorize T S a (Some \<lparr>ContextUser = V_LocalUser l\<rparr>) = Inl (Wrap e')
        \<and> IsNotFound (Wrap e') = IsNotFound e')"
  by (simp add: authorize_defs)

theorem Authorize_lookup_failure_witness:
  "authorizer_Authorize example_teleport example_services example_authorizer
     (Some \<lparr>ContextUser = V_RemoteUser
        \<lparr>Username = ''alice'', ClusterName = ''cluster-z'', RemoteRoles = [''viewer'']\<rparr>\<rparr>)
     = Inl (Wrap (NotFound ''authority cluster-z is not found''))
   \<and> authorizer_Authorize example_teleport example_services example_authorizer
     (Some \<lparr>ContextUser = V_LocalUser \<lparr>LocalUsername = ''mallory''\<rparr>\<rparr>)
     = Inl (Wrap (NotFound ''user mallory is not found''))"
  using Authorize_lookup_failure
    [of example_authorizer example_services
        "\<lparr>Username = ''alice'', ClusterName = ''cluster-z'', RemoteRoles = [''viewer'']\<rparr>"
        "NotFound ''authority cluster-z is not found''" example_teleport
        "\<lparr>LocalUsername = ''mallory''\<rparr>" "NotFound ''user mallory is not found''"]
  by (simp add: example_defs)

text \<open>
  C7 (as the code has it). An error of the identity store's lookup, of the trust store's
  lookup or of the access store's compilation (for a local and for a remote user) is
  returned wrapped, and the wrapped error keeps its cause. An error of the certificate
  authority's role mapping is not kept: \<^verbatim>\<open>Authorize\<close> returns a new access-denied error
  in its place. In every one of these cases the result is an error, never a context.
\<close>

theorem Authorize_collaborator_failures:
  "(GetUser (identity a) (LocalUsername l) = Inl e1
      \<longrightarrow> authorizer_Authorize T S a (Some \<lparr>ContextUser = V_LocalUser l\<rparr>) = Inl (Wrap e1))
   \<and> (GetUser (identity a) (LocalUsername l) = Inr usr
      \<longrightarrow> FetchRoles S (GetRoles usr) (access a) (GetTraits usr) = Inl e2
      \<longrightarrow> authorizer_Authorize T S a (Some \<lparr>ContextUser = V_LocalUser l\<rparr>) = Inl (Wrap e2))
   \<and> (GetCertAuthority (trust a)
         \<lparr>Type = ConstValue S UserCA, DomainName = ClusterName u\<rparr> False = Inl e3
      \<longrightarrow> authorizer_Authorize T S a (Some \<lparr>ContextUser = V_RemoteUser u\<rparr>) = Inl (Wrap e3))
   \<and> (GetCertAuthority (trust a)
         \<lparr>Type = ConstValue S UserCA, DomainName = ClusterName u\<rparr> False = Inr ca
      \<longrightarrow> CombinedMapping_Map ca (RemoteRoles u) = Inr roleNames
      \<longrightarrow> FetchRoles S roleNames (access a) None = Inl e4
      \<longrightarrow> authorizer_Authorize T S a (Some \<lparr>ContextUser = V_RemoteUser u\<rparr>) = Inl (Wrap e4))
   \<and> (GetCertAuthority (trust a)
         \<lparr>Type = ConstValue S UserCA, DomainName = ClusterName u\<rparr> False = Inr ca
      \<longrightarrow> CombinedMapping_Map ca (RemoteRoles u) = Inl e5
      \<longrightarrow> authorizer_Authorize T S a (Some \<lparr>ContextUser = V_RemoteUser u\<rparr>)
            = Inl (AccessDenied (''failed to map roles for remote user '' @ Username u
                                 @ '' from cluster '' @ ClusterName u)))
   \<and> cause (Wrap e) = cause e"
  by (simp add: authorize_defs)

theorem Authorize_collaborator_failures_witness:
  "authorizer_Authorize example_teleport example_services example_authorizer
     (Some \<lparr>ContextUser = V_LocalUser \<lparr>LocalUsername = ''mallory''\<rparr>\<rparr>)
     = Inl (Wrap (NotFound ''user mallory is not found''))
   \<and> authorizer_Authorize example_teleport example_services example_authorizer
     (Some \<lparr>ContextUser = V_LocalUser \<lparr>LocalUsername = ''carol''\<rparr>\<rparr>)
     = Inl (Wrap (NotFound ''role is not found''))
   \<and> authorizer_Authorize example_teleport example_services example_authorizer
     (Some \<lparr>ContextUser = V_RemoteUser
        \<lparr>Username = ''alice'', ClusterName = ''cluster-z'', RemoteRoles = [''viewer'']\<rparr>\<rparr>)
     = Inl (Wrap (NotFound ''authority cluster-z is not found''))
   \<and> authorizer_Authorize example_teleport example_services
        (example_authorizer\<lparr>access := []\<rparr>)
     (Some \<lparr>ContextUser = V_RemoteUser
        \<lparr>Username = ''alice'', ClusterName = ''cluster-b'', RemoteRoles = [''viewer'']\<rparr>\<rparr>)
     = Inl (Wrap (NotFound ''role is not found''))
   \<and> authorizer_Authorize example_teleport example_services example_authorizer
     (Some \<lparr>ContextUser = V_RemoteUser
        \<lparr>Username = ''alice'', ClusterName = ''cluster-b'', RemoteRoles = ['''']\<rparr>\<rparr>)
     = Inl (AccessDenied ''failed to map roles for remote user alice from cluster cluster-b'')"
  using
    Authorize_collaborator_failures
      [where a = example_authorizer and S = example_services and T = example_teleport
         and l = "\<lparr>LocalUsername = ''mallory''\<rparr>"
         and ?e1.0 = "NotFound ''user mallory is not found''"
         and u = "\<lparr>Username = ''alice'', ClusterName = ''cluster-z'', RemoteRoles = [''viewer'']\<rparr>"
         and ?e3.0 = "NotFound ''authority cluster-z is not found''"]
    Authorize_collaborator_failures
      [where a = example_authorizer and S = example_services and T = example_teleport
         and l = "\<lparr>LocalUsername = ''carol''\<rparr>"
         and usr = "\<lparr>GetName = ''carol'', GetRoles = [''retired''], GetTraits = None\<rparr>"
         and ?e2.0 = "NotFound ''role is not found''"
         and u = "\<lparr>Username = ''alice'', ClusterName = ''cluster-b'', RemoteRoles = ['''']\<rparr>"
         and ca = "\<lparr>CombinedMapping_Map = example_Map\<rparr>"
         and ?e5.0 = "BadParameter ''empty role name''"]
    Authorize_collaborator_failures
      [where a = "example_authorizer\<lparr>access := []\<rparr>" and S = example_services
         and T = example_teleport
         and u = "\<lparr>Username = ''alice'', ClusterName = ''cluster-b'', RemoteRoles = [''viewer'']\<rparr>"
         and ca = "\<lparr>CombinedMapping_Map = example_Map\<rparr>"
         and roleNames = "[''local-viewer'']"
         and ?e4.0 = "NotFound ''role is not found''"]
  by (simp add: example_defs)

text \<open>
  The error of the role mapping is lost: mapping the empty role name fails with a
  bad-parameter error, and the error \<^verbatim>\<open>Authorize\<close> returns has another cause.
\<close>

theorem Authorize_map_error_replaced_counterexample:
  "CombinedMapping_Map \<lparr>CombinedMapping_Map = example_Map\<rparr> ['''']
     = Inl (BadParameter ''empty role name'')
   \<and> authorizer_Authorize example_teleport example_services example_authorizer
     (Some \<lparr>ContextUser = V_RemoteUser
        \<lparr>Username = ''alice'', ClusterName = ''cluster-b'', RemoteRoles = ['''']\<rparr>\<rparr>)
     = Inl (AccessDenied ''failed to map roles for remote user alice from cluster cluster-b'')
   \<and> cause (AccessDenied ''failed to map roles for remote user alice from cluster cluster-b'')
       \<noteq> cause (BadParameter ''empty role name'')"
  by (simp add: authorize_defs example_defs)

section \<open>Repeated calls and precomputed contexts\<close>





end
